theory Spec2Isabelle
  imports Main "HOL-Library.Char_ord"
begin

section \<open>Strings and the Go standard library\<close>

text \<open>
  A Go \<^verbatim>\<open>string\<close> is a sequence of bytes and \<^verbatim>\<open>len\<close> counts bytes, so a string is a
  \<^typ>\<open>char list\<close> (an Isabelle \<^typ>\<open>char\<close> is one byte). A slice \<^verbatim>\<open>s[a:b]\<close> is
  \<open>take (b - a) (drop a s)\<close>; every slice of the package is taken under a length guard, so
  none of them can panic.

  A \<^verbatim>\<open>for _, r := range s\<close> loop decodes UTF-8. All loops of the package ask whether
  each rune lies in \<^verbatim>\<open>'A'..'Z'\<close> or \<^verbatim>\<open>'0'..'9'\<close> and stop at the first rune that does not.
  The bytes before that rune are ASCII, so it starts at the first byte outside the range, and
  a byte of \<^verbatim>\<open>0x80\<close> or more decodes to a rune of \<^verbatim>\<open>0x80\<close> or more (or to U+FFFD): the loops
  are the same loops over bytes.
\<close>

definition upperRune :: "char \<Rightarrow> bool" where
  \<comment> \<open>\<^verbatim>\<open>r >= 'A' && r <= 'Z'\<close>\<close>
  "upperRune r \<longleftrightarrow> CHR ''A'' \<le> r \<and> r \<le> CHR ''Z''"

definition digitRune :: "char \<Rightarrow> bool" where
  \<comment> \<open>\<^verbatim>\<open>r >= '0' && r <= '9'\<close>\<close>
  "digitRune r \<longleftrightarrow> CHR ''0'' \<le> r \<and> r \<le> CHR ''9''"

definition alnumRune :: "char \<Rightarrow> bool" where
  \<comment> \<open>\<^verbatim>\<open>(r >= 'A' && r <= 'Z') || (r >= '0' && r <= '9')\<close>\<close>
  "alnumRune r \<longleftrightarrow> upperRune r \<or> digitRune r"

definition runeSelf :: "char \<Rightarrow> bool" where
  \<comment> \<open>\<^verbatim>\<open>c >= utf8.RuneSelf\<close>: the byte is not ASCII\<close>
  "runeSelf c \<longleftrightarrow> CHR 0x80 \<le> c"

definition asciiSpace :: "char \<Rightarrow> bool" where
  \<comment> \<open>the table \<^verbatim>\<open>asciiSpace\<close> of package strings: tab, LF, VT, FF, CR, space\<close>
  "asciiSpace c \<longleftrightarrow> c \<in> set [CHR 0x09, CHR 0x0A, CHR 0x0B, CHR 0x0C, CHR 0x0D, CHR '' '']"

text \<open>
  \<^verbatim>\<open>strings.ToUpper\<close> and \<^verbatim>\<open>strings.TrimSpace\<close> have an ASCII path, written out below,
  and fall back on the Unicode tables of the Go runtime as soon as they meet a byte that is
  not ASCII. The tables are not part of the package; the three functions that consult them are
  parameters of the model.
\<close>

record unicode =
  mapUpper :: "string \<Rightarrow> string"        \<comment> \<open>\<^verbatim>\<open>strings.Map(unicode.ToUpper, s)\<close>\<close>
  trimFunc :: "string \<Rightarrow> string"        \<comment> \<open>\<^verbatim>\<open>strings.TrimFunc(s, unicode.IsSpace)\<close>\<close>
  trimRightFunc :: "string \<Rightarrow> string"   \<comment> \<open>\<^verbatim>\<open>strings.TrimRightFunc(s, unicode.IsSpace)\<close>\<close>

definition upperByte :: "char \<Rightarrow> char" where
  \<comment> \<open>\<^verbatim>\<open>if 'a' <= c && c <= 'z' { c -= 'a' - 'A' }\<close>\<close>
  "upperByte c = (if CHR ''a'' \<le> c \<and> c \<le> CHR ''z'' then char_of (of_char c - (32::nat)) else c)"

definition ToUpper :: "unicode \<Rightarrow> string \<Rightarrow> string" where
  "ToUpper U s = (if list_ex runeSelf s then mapUpper U s else map upperByte s)"

definition trimRightAscii :: "string \<Rightarrow> string" where
  "trimRightAscii s = rev (dropWhile asciiSpace (rev s))"

definition TrimSpace :: "unicode \<Rightarrow> string \<Rightarrow> string" where
  "TrimSpace U s =
     (case dropWhile asciiSpace s of
        [] \<Rightarrow> []
      | c # cs \<Rightarrow>
          if runeSelf c then trimFunc U (c # cs)
          else if runeSelf (last (trimRightAscii (c # cs)))
               then trimRightFunc U (trimRightAscii (c # cs))
               else trimRightAscii (c # cs))"

definition TrimRightSpaces :: "string \<Rightarrow> string" where
  \<comment> \<open>\<^verbatim>\<open>strings.TrimRight(s, " ")\<close>\<close>
  "TrimRightSpaces s = rev (dropWhile (\<lambda>c. c = CHR '' '') (rev s))"

section \<open>Types of package clli\<close>

datatype CLLIType = CLLITypeUnknown | CLLITypeEntity | CLLITypeNonBuilding | CLLITypeCustomer

record CLLI =
  Original :: string
  Place :: string
  Region :: string
  NetworkSite :: string
  EntityCode :: string
  LocationCode :: string
  LocationID :: string
  CustomerCode :: string
  CustomerID :: string
  cliType :: CLLIType
  valid :: bool

record ParseOptions =
  Strict :: bool
  StrictValidation :: bool
  NormalizeCase :: bool
  TrimWhitespace :: bool

datatype err =
  ErrInvalidCLLI | ErrInvalidPlace | ErrInvalidRegion | ErrInvalidSite
  | ErrInvalidEntity | ErrInvalidLocation | ErrEmptyInput

record ParseError =
  Input :: string
  Position :: nat
  Field :: string
  Err :: err

text \<open>
  The component validators return \<^verbatim>\<open>nil\<close> (\<open>None\<close>) or an error made by \<^verbatim>\<open>fmt.Errorf\<close>;
  one constructor for each message.
\<close>

datatype violation =
  EmptyCode          \<comment> \<open>"... cannot be empty"\<close>
  | WrongLength      \<comment> \<open>"... must be exactly n characters"\<close>
  | InvalidCharacter \<comment> \<open>"... contains invalid character: %c"\<close>
  | UnknownRegion    \<comment> \<open>"invalid region code: %s"\<close>
  | InvalidPattern   \<comment> \<open>"invalid entity code pattern: %s"\<close>

section \<open>Helper functions for parsing\<close>

definition isDigitsOnly :: "string \<Rightarrow> bool" where
  "isDigitsOnly s \<longleftrightarrow> list_all digitRune s \<and> length s > 0"

definition isAlpha :: "string \<Rightarrow> bool" where
  "isAlpha s \<longleftrightarrow> list_all upperRune s \<and> length s > 0"

definition isDigits :: "string \<Rightarrow> bool" where
  "isDigits s \<longleftrightarrow> list_all digitRune s \<and> length s > 0"

definition isDigit :: "string \<Rightarrow> bool" where
  "isDigit s \<longleftrightarrow> length s = 1 \<and> CHR ''0'' \<le> s ! 0 \<and> s ! 0 \<le> CHR ''9''"

definition isValidEntityCode :: "string \<Rightarrow> bool" where
  "isValidEntityCode s \<longleftrightarrow>
     (if length s < 2 \<or> length s > 3 then False else list_all alnumRune s)"

section \<open>Component validators\<close>

definition validatePlace :: "string \<Rightarrow> violation option" where
  "validatePlace place =
     (if place = [] then Some EmptyCode
      else let trimmed = TrimRightSpaces place in
        if length trimmed \<noteq> 4 then Some WrongLength
        else if \<not> list_all upperRune trimmed then Some InvalidCharacter
        else None)"

definition validRegions :: "string list" where
  "validRegions =
     [''AL'', ''AK'', ''AZ'', ''AR'', ''CA'', ''CO'', ''CT'',
      ''DE'', ''FL'', ''GA'', ''HI'', ''ID'', ''IL'', ''IN'',
      ''IA'', ''KS'', ''KY'', ''LA'', ''ME'', ''MD'', ''MA'',
      ''MI'', ''MN'', ''MS'', ''MO'', ''MT'', ''NE'', ''NV'',
      ''NH'', ''NJ'', ''NM'', ''NY'', ''NC'', ''ND'', ''OH'',
      ''OK'', ''OR'', ''PA'', ''RI'', ''SC'', ''SD'', ''TN'',
      ''TX'', ''UT'', ''VT'', ''VA'', ''WA'', ''WV'', ''WI'',
      ''WY'', ''DC'',
      ''AB'', ''BC'', ''MB'', ''NB'', ''NL'', ''NT'', ''NS'',
      ''NU'', ''ON'', ''PE'', ''QC'', ''SK'', ''YT'']"

definition validateRegion :: "string \<Rightarrow> violation option" where
  "validateRegion region =
     (if region = [] then Some EmptyCode
      else if length region \<noteq> 2 then Some WrongLength
      else if \<not> list_all upperRune region then Some InvalidCharacter
      else if region \<notin> set validRegions then Some UnknownRegion
      else None)"

definition validateNetworkSiteDigitsOnly :: "string \<Rightarrow> violation option" where
  "validateNetworkSiteDigitsOnly site =
     (if site = [] then Some EmptyCode
      else if length site \<noteq> 2 then Some WrongLength
      else if \<not> list_all digitRune site then Some InvalidCharacter
      else None)"

definition validateNetworkSiteAlphanumeric :: "string \<Rightarrow> violation option" where
  "validateNetworkSiteAlphanumeric site =
     (if site = [] then Some EmptyCode
      else if length site \<noteq> 2 then Some WrongLength
      else if \<not> list_all alnumRune site then Some InvalidCharacter
      else None)"

definition tbPrefixes :: "string list" where
  "tbPrefixes =
     [''MG'', ''SG'', ''CG'', ''DS'', ''RL'', ''PS'', ''RP'', ''CM'',
      ''VS'', ''OS'', ''OL'', ''RT'', ''SW'', ''MS'', ''XC'']"

definition tableE :: "string list" where
  \<comment> \<open>the cases of the final \<^verbatim>\<open>switch c\<close>\<close>
  "tableE =
     [''F23'', ''A12'', ''E45'', ''K67'', ''M89'', ''P01'', ''S34'', ''T56'', ''W78'',
      ''FAA'', ''AAA'', ''EZZ'', ''KA1'', ''M2Z'']"

definition ContainsRune :: "string \<Rightarrow> char \<Rightarrow> bool" where
  \<comment> \<open>\<^verbatim>\<open>strings.ContainsRune(s, rune(b))\<close> for an ASCII string \<open>s\<close>\<close>
  "ContainsRune s b \<longleftrightarrow> b \<in> set s"

definition validateEntityCode :: "string \<Rightarrow> violation option" where
  "validateEntityCode code =
     (if code = [] then Some EmptyCode
      else if length code \<noteq> 3 then Some WrongLength
      else let c = code in
        if \<not> isValidEntityCode c \<or> length c \<noteq> 3 then Some InvalidPattern
        else if take 2 c \<in> set tbPrefixes then None
        else if digitRune (c ! 0) \<and> digitRune (c ! 1) \<and> ContainsRune ''12AZ'' (c ! 2) then None
        else if (c ! 0 = CHR ''C'' \<or> c ! 0 = CHR ''B'' \<or> digitRune (c ! 0))
                \<and> digitRune (c ! 1) \<and> c ! 2 = CHR ''T'' then None
        else if digitRune (c ! 0) \<and> c ! 1 = CHR ''G'' \<and> c ! 2 = CHR ''T'' then None
        else if c ! 0 = CHR ''Z'' \<and> upperRune (c ! 1) \<and> c ! 2 = CHR ''Z'' then None
        else if c ! 0 = CHR ''R'' \<and> c ! 1 = CHR ''S'' \<and> digitRune (c ! 2) then None
        else if c ! 0 = CHR ''X'' \<and> upperRune (c ! 1) \<and> c ! 2 = CHR ''X'' then None
        else if c ! 0 = CHR ''C'' \<and> c ! 1 = CHR ''T'' \<and> ContainsRune ''12AZ'' (c ! 2) then None
        else if digitRune (c ! 0)
                \<and> (ContainsRune ''CDBINQWMVROLPEUTZ'' (c ! 1) \<or> digitRune (c ! 1))
                \<and> c ! 2 = CHR ''B'' then None
        else if digitRune (c ! 0) \<and> ContainsRune ''AXCTWDEINPQ'' (c ! 1) \<and> c ! 2 = CHR ''D''
             then None
        else if (upperRune (c ! 0) \<or> digitRune (c ! 0)) \<and> ContainsRune ''UM'' (c ! 1)
                \<and> c ! 2 = CHR ''D'' then None
        else if c ! 0 = CHR ''Q'' \<and> digitRune (c ! 1) \<and> digitRune (c ! 2) then None
        else if c \<in> set tableE then None
        else Some InvalidPattern)"

section \<open>Parsing\<close>

definition parseError :: "string \<Rightarrow> nat \<Rightarrow> string \<Rightarrow> err \<Rightarrow> ParseError" where
  \<comment> \<open>\<^verbatim>\<open>fmt.Errorf("%s: %w", clli, &ParseError{...})\<close>\<close>
  "parseError clli pos fld e = \<lparr>Input = clli, Position = pos, Field = fld, Err = e\<rparr>"

definition defaultOptions :: ParseOptions where
  "defaultOptions =
     \<lparr>Strict = True, StrictValidation = False, NormalizeCase = True, TrimWhitespace = True\<rparr>"

definition preprocess :: "unicode \<Rightarrow> ParseOptions \<Rightarrow> string \<Rightarrow> string" where
  \<comment> \<open>"Preprocess input according to options"\<close>
  "preprocess U opts clli =
     (let input = clli;
          input = (if TrimWhitespace opts then TrimSpace U input else input);
          input = (if NormalizeCase opts then ToUpper U input else input)
      in input)"

fun invalidCharacter :: "nat \<Rightarrow> string \<Rightarrow> nat option" where
  \<comment> \<open>the loop \<^verbatim>\<open>for i, r := range input\<close>: the offset of the first rune that is not
      alphanumeric, counted from \<open>i\<close>\<close>
  "invalidCharacter i [] = None"
| "invalidCharacter i (r # rs) =
     (if \<not> (upperRune r \<or> digitRune r) then Some i else invalidCharacter (Suc i) rs)"

definition networkSiteCheck :: "string \<Rightarrow> violation option" where
  \<comment> \<open>the block guarded by \<^verbatim>\<open>len(input) >= 8\<close> that validates the network site\<close>
  "networkSiteCheck input =
     (let potentialNetworkSite = take 2 (drop 6 input);
          potentialEntityCode = (if length input > 8 then drop 8 input else []);
          isDigitsOnly = list_all digitRune potentialNetworkSite
      in if length potentialEntityCode \<ge> 2 \<and> isDigitsOnly
         then validateNetworkSiteDigitsOnly potentialNetworkSite
         else validateNetworkSiteAlphanumeric potentialNetworkSite)"

definition baseFields :: "string \<Rightarrow> CLLI" where
  \<comment> \<open>"extract actual components for CLLI creation" and "Create CLLI instance with base
      fields"; the fields the literal leaves out hold Go's zero values\<close>
  "baseFields input =
     (let actualPlace = take 4 input;
          actualRegion = (if length input \<ge> 6 then take 2 (drop 4 input)
                          else if length input > 4
                            then drop 4 input @ replicate (6 - length input) CHR ''X''
                          else ''XX'')
      in \<lparr>Original = input, Place = TrimRightSpaces actualPlace,
          Region = actualRegion, NetworkSite = [], EntityCode = [],
          LocationCode = [], LocationID = [], CustomerCode = [],
          CustomerID = [], cliType = CLLITypeUnknown, valid = True\<rparr>)"

definition classify :: "string \<Rightarrow> CLLI \<Rightarrow> CLLI" where
  \<comment> \<open>"Now determine the type and populate type-specific fields"\<close>
  "classify input result =
     (if length input \<ge> 8 then
        let remainder = drop 6 input in
        if length remainder = 9 \<and> isDigits (take 2 remainder) then
          result\<lparr>NetworkSite := take 2 remainder, EntityCode := drop 2 remainder,
                 cliType := CLLITypeCustomer\<rparr>
        else if length remainder \<ge> 5 \<and> isDigitsOnly (take 2 remainder)
                \<and> isValidEntityCode (drop 2 remainder) then
          result\<lparr>NetworkSite := take 2 remainder, EntityCode := drop 2 remainder,
                 cliType := CLLITypeEntity\<rparr>
        else if length remainder \<ge> 5 \<and> isAlpha (take 1 remainder)
                \<and> isDigits (drop 1 remainder) then
          result\<lparr>LocationCode := take 1 remainder, LocationID := drop 1 remainder,
                 cliType := CLLITypeNonBuilding\<rparr>
        else if length remainder \<ge> 5 \<and> isDigit (take 1 remainder)
                \<and> isAlpha (take 1 (drop 1 remainder)) \<and> isDigits (drop 2 remainder) then
          result\<lparr>CustomerCode := take 1 remainder, CustomerID := drop 1 remainder,
                 cliType := CLLITypeCustomer\<rparr>
        else if length remainder = 2 \<and> isDigitsOnly remainder then
          result\<lparr>NetworkSite := remainder, cliType := CLLITypeNonBuilding\<rparr>
        else if length remainder \<ge> 2 then
          (let result = result\<lparr>NetworkSite := take 2 remainder\<rparr>;
               result = (if length remainder > 2
                         then result\<lparr>EntityCode := drop 2 remainder\<rparr> else result)
           in result\<lparr>cliType := CLLITypeEntity\<rparr>)
        else result
      else
        (let result = (if length input \<ge> 8
                       then result\<lparr>NetworkSite := take 2 (drop 6 input)\<rparr> else result)
         in result\<lparr>cliType := CLLITypeNonBuilding\<rparr>))"

definition ParseWithOptions :: "unicode \<Rightarrow> string \<Rightarrow> ParseOptions option \<Rightarrow> ParseError + CLLI" where
  "ParseWithOptions U clli opts0 =
     (let opts = (case opts0 of None \<Rightarrow> defaultOptions | Some given \<Rightarrow> given) in
      if TrimSpace U clli = [] then Inl (parseError clli 0 ''input'' ErrEmptyInput)
      else let input = preprocess U opts clli in
      if Strict opts \<and> length input < 8 then Inl (parseError clli 0 ''length'' ErrInvalidCLLI)
      else if \<not> Strict opts \<and> length input < 4
        then Inl (parseError clli 0 ''length'' ErrInvalidCLLI)
      else if length input > 15 then Inl (parseError clli 0 ''length'' ErrInvalidCLLI)
      else case invalidCharacter 0 input of
        Some i \<Rightarrow> Inl (parseError clli i ''characters'' ErrInvalidCLLI)
      | None \<Rightarrow>
        let place = (if length input \<ge> 4 then take 4 input
                     else input @ replicate (4 - length input) CHR '' '');
            region = (if length input \<ge> 6 then take 2 (drop 4 input)
                      else if length input > 4
                        then drop 4 input @ replicate (6 - length input) CHR '' ''
                      else [])
        in
        if validatePlace place \<noteq> None then Inl (parseError clli 0 ''place'' ErrInvalidPlace)
        else if length input > 4 \<and> validateRegion region \<noteq> None
          then Inl (parseError clli 4 ''region'' ErrInvalidRegion)
        else if length input \<ge> 8 \<and> networkSiteCheck input \<noteq> None
          then Inl (parseError clli 6 ''network_site'' ErrInvalidSite)
        else
          let result = baseFields input;
              result = classify input result
          in
          if cliType result = CLLITypeEntity \<and> EntityCode result \<noteq> [] then
            if length (EntityCode result) < 2 \<or> length (EntityCode result) > 3
              then Inl (parseError clli 8 ''entity_code'' ErrInvalidEntity)
            else if validateEntityCode (EntityCode result) \<noteq> None
              then Inl (parseError clli 8 ''entity_code'' ErrInvalidEntity)
            else Inr result
          else Inr result)"

definition Parse :: "unicode \<Rightarrow> string \<Rightarrow> ParseError + CLLI" where
  "Parse U clli = ParseWithOptions U clli (Some defaultOptions)"

text \<open>\<^verbatim>\<open>func (c *CLLI) String() string\<close>\<close>

definition String :: "CLLI \<Rightarrow> string" where
  "String c = Original c"

section \<open>Package-level validation and pattern matching\<close>

datatype error = Sentinel err | Formatted violation

definition ValidateEntityCode :: "unicode \<Rightarrow> string \<Rightarrow> bool \<Rightarrow> error option" where
  "ValidateEntityCode U code strict =
     (if code = [] then Some (Sentinel ErrInvalidEntity)
      else let testCode = (if \<not> strict then ToUpper U (TrimSpace U code) else code)
           in map_option Formatted (validateEntityCode testCode))"

function entitySplit :: "string \<Rightarrow> nat \<Rightarrow> bool" where
  \<comment> \<open>the loop \<^verbatim>\<open>for i := 2; i <= len(remaining) && i <= 5; i++\<close> of \<^verbatim>\<open>IsEntityCLLI\<close>,
      from index \<open>i\<close> on\<close>
  "entitySplit remaining i =
     (if i \<le> length remaining \<and> i \<le> 5 then
        (let networkSite = take i remaining; entityCode = drop i remaining in
         if isDigitsOnly networkSite \<and> length entityCode = 3 \<and> isValidEntityCode entityCode
         then True
         else entitySplit remaining (Suc i))
      else False)"
  by pat_completeness auto
termination
  by (relation "measure (\<lambda>(remaining, i). 6 - i)") auto

definition IsEntityCLLI :: "unicode \<Rightarrow> string \<Rightarrow> bool" where
  "IsEntityCLLI U clli =
     (if clli = [] then False
      else if clli \<noteq> ToUpper U clli then False
      else if length clli < 8 \<or> length clli > 11 then False
      else if length clli < 6 then False
      else let place = take 4 clli; region = take 2 (drop 4 clli) in
        if \<not> isAlpha place \<or> \<not> isAlpha region then False
        else let remaining = drop 6 clli in
          if length remaining \<ge> 2 then entitySplit remaining 2 else False)"

definition IsNonBuildingCLLI :: "unicode \<Rightarrow> string \<Rightarrow> bool" where
  "IsNonBuildingCLLI U clli =
     (if clli = [] then False
      else if clli \<noteq> ToUpper U clli then False
      else if length clli \<noteq> 11 then False
      else let place = take 4 clli; region = take 2 (drop 4 clli) in
        if \<not> isAlpha place \<or> \<not> isAlpha region then False
        else let locationCode = take 1 (drop 6 clli) in
          if \<not> isAlpha locationCode then False
          else let locationID = take 4 (drop 7 clli) in
            if \<not> isDigitsOnly locationID then False
            else True)"

definition IsCustomerCLLI :: "unicode \<Rightarrow> string \<Rightarrow> bool" where
  "IsCustomerCLLI U clli =
     (if clli = [] then False
      else if clli \<noteq> ToUpper U clli then False
      else if length clli \<noteq> 11 then False
      else let place = take 4 clli; region = take 2 (drop 4 clli) in
        if \<not> isAlpha place \<or> \<not> isAlpha region then False
        else let customerCode = take 1 (drop 6 clli) in
          if \<not> isDigit customerCode then False
          else if \<not> isAlpha (take 1 (drop 7 clli)) then False
          else let customerID = take 3 (drop 8 clli) in
            if \<not> isDigitsOnly customerID then False
            else True)"

text \<open>
  The concrete inputs evaluated below are ASCII strings, on which the Unicode tables are never
  consulted; \<open>identityTables\<close> stands for the tables there.
\<close>

definition identityTables :: unicode where
  "identityTables = \<lparr>mapUpper = (\<lambda>s. s), trimFunc = (\<lambda>s. s), trimRightFunc = (\<lambda>s. s)\<rparr>"

section \<open>Character classes and normalisation\<close>

lemma digit_not_upper: "digitRune c \<Longrightarrow> \<not> upperRune c"
  by (auto simp add: digitRune_def upperRune_def less_eq_char_def)

lemma alnum_not_space: "alnumRune c \<Longrightarrow> \<not> asciiSpace c"
  by (auto simp add: alnumRune_def digitRune_def upperRune_def asciiSpace_def less_eq_char_def)

lemma alnum_not_runeSelf: "alnumRune c \<Longrightarrow> \<not> runeSelf c"
  by (auto simp add: alnumRune_def digitRune_def upperRune_def runeSelf_def less_eq_char_def)

lemma alnum_upperByte: "alnumRune c \<Longrightarrow> upperByte c = c"
  by (auto simp add: alnumRune_def digitRune_def upperRune_def upperByte_def less_eq_char_def)

lemma alnum_not_blank: "alnumRune c \<Longrightarrow> c \<noteq> CHR '' ''"
  by (auto simp add: alnumRune_def digitRune_def upperRune_def less_eq_char_def)

lemma blank_not_upper: "\<not> upperRune CHR '' ''"
  by (simp add: upperRune_def)

lemma ToUpper_alnum: "list_all alnumRune s \<Longrightarrow> ToUpper U s = s"
  by (auto simp add: ToUpper_def list_ex_iff list_all_iff alnum_not_runeSelf alnum_upperByte map_idI)

lemma dropWhile_rev_keep: "s \<noteq> [] \<Longrightarrow> \<not> P (last s) \<Longrightarrow> rev (dropWhile P (rev s)) = s"
  by (cases s rule: rev_cases) auto

lemma TrimSpace_alnum:
  assumes "list_all alnumRune s"
  shows "TrimSpace U s = s"
proof (cases s)
  case Nil
  then show ?thesis by (simp add: TrimSpace_def)
next
  case (Cons c cs)
  have l: "alnumRune (last s)"
    using assms Cons by (metis last_in_set list.distinct(1) list_all_iff)
  have c: "alnumRune c" using assms Cons by simp
  have t: "trimRightAscii s = s"
    unfolding trimRightAscii_def using Cons l
    by (intro dropWhile_rev_keep) (auto simp: alnum_not_space)
  show ?thesis using c l t Cons
    by (simp add: TrimSpace_def alnum_not_space alnum_not_runeSelf)
qed

lemma preprocess_alnum: "list_all alnumRune s \<Longrightarrow> preprocess U opts s = s"
  by (simp add: preprocess_def TrimSpace_alnum ToUpper_alnum)

lemma TrimRightSpaces_alnum:
  assumes "list_all alnumRune s"
  shows "TrimRightSpaces s = s"
proof (cases "s = []")
  case True
  then show ?thesis by (simp add: TrimRightSpaces_def)
next
  case False
  have "alnumRune (last s)" using assms False by (metis last_in_set list_all_iff)
  then show ?thesis unfolding TrimRightSpaces_def using False
    by (intro dropWhile_rev_keep) (auto simp: alnum_not_blank)
qed

lemma list_all_asciiSpace_dropWhile: "list_all asciiSpace s \<Longrightarrow> dropWhile asciiSpace s = []"
  by (induction s) auto

text \<open>A string of ASCII white space only is blank for \<^verbatim>\<open>strings.TrimSpace\<close>.\<close>

lemma TrimSpace_blank: "list_all asciiSpace s \<Longrightarrow> TrimSpace U s = []"
  by (simp add: TrimSpace_def list_all_asciiSpace_dropWhile)

lemma invalidCharacter_None: "invalidCharacter i s = None \<longleftrightarrow> list_all alnumRune s"
  by (induction s arbitrary: i) (auto simp add: alnumRune_def)

lemma upper_alnum: "list_all upperRune s \<Longrightarrow> list_all alnumRune s"
  by (auto simp add: list_all_iff alnumRune_def)

lemma digit_alnum: "list_all digitRune s \<Longrightarrow> list_all alnumRune s"
  by (auto simp add: list_all_iff alnumRune_def)

lemma isDigitsOnly_nth: "isDigitsOnly s \<Longrightarrow> k < length s \<Longrightarrow> digitRune (s ! k)"
  by (simp add: isDigitsOnly_def list_all_length)

lemma isAlpha_nth: "isAlpha s \<Longrightarrow> k < length s \<Longrightarrow> upperRune (s ! k)"
  by (simp add: isAlpha_def list_all_length)

lemma validRegions_shape: "list_all (\<lambda>r. length r = 2 \<and> list_all upperRune r) validRegions"
  by code_simp

lemma member_validRegions:
  assumes "r \<in> set validRegions"
  shows "length r = 2" and "list_all upperRune r"
  using assms validRegions_shape by (auto simp add: list_all_iff)

section \<open>What a successful parse has checked\<close>

lemma validateRegion_None:
  "validateRegion r = None \<longleftrightarrow>
     length r = 2 \<and> list_all upperRune r \<and> r \<in> set validRegions"
  by (auto simp add: validateRegion_def)

lemma validatePlace_None:
  "validatePlace p = None \<longleftrightarrow>
     length (TrimRightSpaces p) = 4 \<and> list_all upperRune (TrimRightSpaces p)"
  by (auto simp add: validatePlace_def Let_def TrimRightSpaces_def)

lemma classify_Original: "Original (classify input r) = Original r"
  by (simp add: classify_def Let_def)

lemma baseFields_Original: "Original (baseFields input) = input"
  by (simp add: baseFields_def Let_def)

lemma ParseWithOptions_None:
  "ParseWithOptions U clli None = ParseWithOptions U clli (Some defaultOptions)"
  by (simp add: ParseWithOptions_def)

lemma ParseWithOptions_Inr:
  assumes "ParseWithOptions U clli (Some opts) = Inr c"
  shows "TrimSpace U clli \<noteq> []"
    and "4 \<le> length (preprocess U opts clli)"
    and "Strict opts \<Longrightarrow> 8 \<le> length (preprocess U opts clli)"
    and "length (preprocess U opts clli) \<le> 15"
    and "list_all alnumRune (preprocess U opts clli)"
    and "validatePlace (take 4 (preprocess U opts clli)) = None"
    and "4 < length (preprocess U opts clli) \<Longrightarrow>
           validateRegion (if 6 \<le> length (preprocess U opts clli)
              then take 2 (drop 4 (preprocess U opts clli))
              else drop 4 (preprocess U opts clli) @
                   replicate (6 - length (preprocess U opts clli)) CHR '' '') = None"
    and "8 \<le> length (preprocess U opts clli) \<Longrightarrow>
           networkSiteCheck (preprocess U opts clli) = None"
    and "c = classify (preprocess U opts clli) (baseFields (preprocess U opts clli))"
    and "cliType c = CLLITypeEntity \<Longrightarrow> EntityCode c \<noteq> [] \<Longrightarrow>
           validateEntityCode (EntityCode c) = None"
  using assms
  by (auto simp add: ParseWithOptions_def Let_def invalidCharacter_None
      split: if_splits option.splits)

section \<open>Blank input and length violations\<close>

text \<open>
  Claim C10. Whatever the options are (also \<^verbatim>\<open>nil\<close>, and also with \<open>TrimWhitespace\<close> off),
  \<open>ParseWithOptions\<close> on an input that \<^verbatim>\<open>strings.TrimSpace\<close> reduces to the empty string, that
  is the empty string or a string of white space only, fails with \<open>ErrEmptyInput\<close> in field
  \<open>input\<close> at position 0: the blank check trims unconditionally and comes before the
  character and length checks.
\<close>

theorem blank_input_is_EmptyInput:
  assumes "TrimSpace U clli = []"
  shows "ParseWithOptions U clli opts0 =
           Inl \<lparr>Input = clli, Position = 0, Field = ''input'', Err = ErrEmptyInput\<rparr>"
  using assms by (simp add: ParseWithOptions_def parseError_def)

theorem blank_input_is_EmptyInput_witness:
  "TrimSpace identityTables [CHR '' '', CHR 0x09, CHR '' ''] = []
   \<and> ParseWithOptions identityTables [CHR '' '', CHR 0x09, CHR '' '']
        (Some \<lparr>Strict = True, StrictValidation = False, NormalizeCase = False,
               TrimWhitespace = False\<rparr>) =
       Inl \<lparr>Input = [CHR '' '', CHR 0x09, CHR '' ''], Position = 0, Field = ''input'',
            Err = ErrEmptyInput\<rparr>"
proof -
  have h: "TrimSpace identityTables [CHR '' '', CHR 0x09, CHR '' ''] = []"
    by code_simp
  show ?thesis
    using h blank_input_is_EmptyInput [OF h] by simp
qed

lemma length_violation:
  assumes "TrimSpace U clli \<noteq> []"
    and "(if Strict opts then length (preprocess U opts clli) < 8
          else length (preprocess U opts clli) < 4)
         \<or> 15 < length (preprocess U opts clli)"
  shows "ParseWithOptions U clli (Some opts) = Inl (parseError clli 0 ''length'' ErrInvalidCLLI)"
  using assms by (auto simp add: ParseWithOptions_def Let_def split: if_splits)

lemma no_length_violation:
  assumes "TrimSpace U clli \<noteq> []"
    and "\<not> ((if Strict opts then length (preprocess U opts clli) < 8
             else length (preprocess U opts clli) < 4)
            \<or> 15 < length (preprocess U opts clli))"
    and "ParseWithOptions U clli (Some opts) = Inl e"
  shows "Field e \<noteq> ''length''"
  using assms
  by (auto simp add: ParseWithOptions_def Let_def parseError_def split: if_splits option.splits)

text \<open>
  Claim C9. For an input that is not blank, \<open>ParseWithOptions\<close> fails in field \<open>length\<close>
  exactly when the length of the preprocessed input (trimmed and uppercased as the options
  say) is below 8 with \<open>Strict\<close>, below 4 without it, or above 15. So an input whose
  preprocessed length is within the bounds is never rejected for its length.
\<close>

theorem length_violation_iff:
  assumes "TrimSpace U clli \<noteq> []"
  shows "(case ParseWithOptions U clli (Some opts) of
            Inl e \<Rightarrow> Field e = ''length'' | Inr c \<Rightarrow> False)
         \<longleftrightarrow> (if Strict opts then length (preprocess U opts clli) < 8
              else length (preprocess U opts clli) < 4)
             \<or> 15 < length (preprocess U opts clli)"
proof (cases "(if Strict opts then length (preprocess U opts clli) < 8
               else length (preprocess U opts clli) < 4)
              \<or> 15 < length (preprocess U opts clli)")
  case True
  with length_violation [OF assms, of opts] show ?thesis
    by (simp add: parseError_def)
next
  case False
  with no_length_violation [OF assms, of opts] show ?thesis
    by (auto split: sum.splits)
qed

theorem length_violation_iff_witness:
  "TrimSpace identityTables ''MPLSMN'' \<noteq> []
   \<and> Strict defaultOptions
   \<and> preprocess identityTables defaultOptions ''MPLSMN'' = ''MPLSMN''
   \<and> (case ParseWithOptions identityTables ''MPLSMN'' (Some defaultOptions) of
         Inl e \<Rightarrow> Field e = ''length'' | Inr c \<Rightarrow> False)
   \<and> TrimSpace identityTables ''MPLS@MN12'' \<noteq> []
   \<and> preprocess identityTables defaultOptions ''MPLS@MN12'' = ''MPLS@MN12''
   \<and> \<not> (case ParseWithOptions identityTables ''MPLS@MN12'' (Some defaultOptions) of
           Inl e \<Rightarrow> Field e = ''length'' | Inr c \<Rightarrow> False)"
proof -
  have h: "TrimSpace identityTables ''MPLSMN'' \<noteq> []"
    by code_simp
  have p: "preprocess identityTables defaultOptions ''MPLSMN'' = ''MPLSMN''"
    by code_simp
  have h': "TrimSpace identityTables ''MPLS@MN12'' \<noteq> []"
    by code_simp
  have p': "preprocess identityTables defaultOptions ''MPLS@MN12'' = ''MPLS@MN12''"
    by code_simp
  have s: "Strict defaultOptions" by (simp add: defaultOptions_def)
  show ?thesis
    using h p h' p' s length_violation_iff [OF h, of defaultOptions]
      length_violation_iff [OF h', of defaultOptions]
    by simp
qed

section \<open>The original field\<close>

text \<open>
  Claim C3, as stated, fails: \<open>Original\<close> holds the input after preprocessing. With the
  default options the lower-case input \<open>chcgil01ds0\<close> parses and \<open>Original\<close> is
  \<open>CHCGIL01DS0\<close>.
\<close>

theorem Original_not_raw_input:
  "Parse identityTables ''chcgil01ds0'' =
     Inr \<lparr>Original = ''CHCGIL01DS0'', Place = ''CHCG'', Region = ''IL'',
          NetworkSite = ''01'', EntityCode = ''DS0'', LocationCode = [], LocationID = [],
          CustomerCode = [], CustomerID = [], cliType = CLLITypeEntity, valid = True\<rparr>
   \<and> String (projr (Parse identityTables ''chcgil01ds0'')) \<noteq> ''chcgil01ds0''"
  by code_simp

text \<open>
  Claim C3, amended. For every input on which \<open>ParseWithOptions\<close> succeeds, \<open>Original\<close>
  (returned by \<open>String\<close>) is the input after preprocessing: trimmed if \<open>TrimWhitespace\<close> is
  set, then uppercased if \<open>NormalizeCase\<close> is set. It is the input as received when both
  options are off.
\<close>

theorem Original_is_preprocessed:
  assumes "ParseWithOptions U clli (Some opts) = Inr c"
  shows "Original c = preprocess U opts clli \<and> String c = preprocess U opts clli
         \<and> (\<not> TrimWhitespace opts \<and> \<not> NormalizeCase opts \<longrightarrow> Original c = clli)"
proof -
  have "Original c = preprocess U opts clli"
    using ParseWithOptions_Inr(9) [OF assms]
    by (simp add: classify_Original baseFields_Original)
  then show ?thesis
    by (simp add: String_def preprocess_def)
qed

theorem Original_is_preprocessed_witness:
  "ParseWithOptions identityTables '' chcgil01ds0 '' (Some defaultOptions) =
     Inr \<lparr>Original = ''CHCGIL01DS0'', Place = ''CHCG'', Region = ''IL'',
          NetworkSite = ''01'', EntityCode = ''DS0'', LocationCode = [], LocationID = [],
          CustomerCode = [], CustomerID = [], cliType = CLLITypeEntity, valid = True\<rparr>
   \<and> preprocess identityTables defaultOptions '' chcgil01ds0 '' = ''CHCGIL01DS0''
   \<and> ParseWithOptions identityTables ''CHCGIL01DS0''
        (Some \<lparr>Strict = True, StrictValidation = False, NormalizeCase = False,
          TrimWhitespace = False\<rparr>) =
     Inr \<lparr>Original = ''CHCGIL01DS0'', Place = ''CHCG'', Region = ''IL'',
          NetworkSite = ''01'', EntityCode = ''DS0'', LocationCode = [], LocationID = [],
          CustomerCode = [], CustomerID = [], cliType = CLLITypeEntity, valid = True\<rparr>"
proof -
  have h: "ParseWithOptions identityTables '' chcgil01ds0 '' (Some defaultOptions) =
     Inr \<lparr>Original = ''CHCGIL01DS0'', Place = ''CHCG'', Region = ''IL'',
          NetworkSite = ''01'', EntityCode = ''DS0'', LocationCode = [], LocationID = [],
          CustomerCode = [], CustomerID = [], cliType = CLLITypeEntity, valid = True\<rparr>"
    by code_simp
  have k: "ParseWithOptions identityTables ''CHCGIL01DS0''
        (Some \<lparr>Strict = True, StrictValidation = False, NormalizeCase = False,
          TrimWhitespace = False\<rparr>) =
     Inr \<lparr>Original = ''CHCGIL01DS0'', Place = ''CHCG'', Region = ''IL'',
          NetworkSite = ''01'', EntityCode = ''DS0'', LocationCode = [], LocationID = [],
          CustomerCode = [], CustomerID = [], cliType = CLLITypeEntity, valid = True\<rparr>"
    by code_simp
  show ?thesis
    using h k Original_is_preprocessed [OF h] Original_is_preprocessed [OF k] by simp
qed

section \<open>Concrete identifiers\<close>

text \<open>
  Claim C6. With the default options \<open>MPLSMNMSDS1\<close> parses as an entity identifier with
  place \<open>MPLS\<close>, region \<open>MN\<close>, network site \<open>MS\<close> and entity code \<open>DS1\<close>. The network site
  is letters, not digits, so the remainder \<open>MSDS1\<close> fails the guards of the five earlier
  branches of the classification and it is the final (default) branch that makes it an
  entity.
\<close>

theorem MPLSMNMSDS1_entity_by_fallback:
  "Parse U ''MPLSMNMSDS1'' =
     Inr \<lparr>Original = ''MPLSMNMSDS1'', Place = ''MPLS'', Region = ''MN'',
          NetworkSite = ''MS'', EntityCode = ''DS1'', LocationCode = [], LocationID = [],
          CustomerCode = [], CustomerID = [], cliType = CLLITypeEntity, valid = True\<rparr>
   \<and> drop 6 ''MPLSMNMSDS1'' = ''MSDS1''
   \<and> isAlpha ''MS'' \<and> \<not> isDigitsOnly ''MS''
   \<and> length ''MSDS1'' \<noteq> 9
   \<and> \<not> isDigitsOnly (take 2 ''MSDS1'')
   \<and> \<not> isDigits (drop 1 ''MSDS1'')
   \<and> \<not> isDigit (take 1 ''MSDS1'')
   \<and> length ''MSDS1'' \<noteq> 2"
  by code_simp

text \<open>
  Claim C7. An 8-character input made of four letters, a recognised region code and two
  digits parses, under any options, as a non-building identifier whose place is the four
  letters, whose region is the code and whose network site is the two digits; no other
  trailing field is set.
\<close>

theorem eight_characters_NonBuilding:
  assumes len: "length x = 8"
    and place: "list_all upperRune (take 4 x)"
    and region: "take 2 (drop 4 x) \<in> set validRegions"
    and site: "list_all digitRune (drop 6 x)"
  shows "ParseWithOptions U x opts0 =
           Inr \<lparr>Original = x, Place = take 4 x, Region = take 2 (drop 4 x),
                NetworkSite = drop 6 x, EntityCode = [], LocationCode = [], LocationID = [],
                CustomerCode = [], CustomerID = [], cliType = CLLITypeNonBuilding,
                valid = True\<rparr>"
proof -
  define opts where "opts = (case opts0 of None \<Rightarrow> defaultOptions | Some given \<Rightarrow> given)"
  have "take 2 (drop 4 x) @ drop 2 (drop 4 x) = drop 4 x"
    by (rule append_take_drop_id)
  then have "take 2 (drop 4 x) @ drop 6 x = drop 4 x"
    by simp
  then have pieces: "x = take 4 x @ take 2 (drop 4 x) @ drop 6 x"
    by simp
  have r: "list_all upperRune (take 2 (drop 4 x))"
    using member_validRegions(2) [OF region] .
  have alnum: "list_all alnumRune x"
    using upper_alnum [OF place] upper_alnum [OF r] digit_alnum [OF site]
    by (subst pieces) simp
  have pre: "preprocess U opts x = x"
    using alnum by (rule preprocess_alnum)
  have nonblank: "TrimSpace U x \<noteq> []"
    using len by (auto simp add: TrimSpace_alnum [OF alnum])
  have chars: "invalidCharacter 0 x = None"
    using alnum by (simp add: invalidCharacter_None)
  have pl: "validatePlace (take 4 x) = None"
    using place len
    by (simp add: validatePlace_None TrimRightSpaces_alnum [OF upper_alnum [OF place]])
  have rg: "validateRegion (take 2 (drop 4 x)) = None"
    using region r len by (simp add: validateRegion_None)
  have ns: "networkSiteCheck x = None"
    using len digit_alnum [OF site]
    by (simp add: networkSiteCheck_def validateNetworkSiteAlphanumeric_def Let_def)
  have base: "baseFields x =
      \<lparr>Original = x, Place = take 4 x, Region = take 2 (drop 4 x),
       NetworkSite = [], EntityCode = [], LocationCode = [], LocationID = [],
       CustomerCode = [], CustomerID = [], cliType = CLLITypeUnknown, valid = True\<rparr>"
    using len
    by (simp add: baseFields_def Let_def TrimRightSpaces_alnum [OF upper_alnum [OF place]])
  have cl: "classify x (baseFields x) =
      \<lparr>Original = x, Place = take 4 x, Region = take 2 (drop 4 x),
       NetworkSite = drop 6 x, EntityCode = [], LocationCode = [], LocationID = [],
       CustomerCode = [], CustomerID = [], cliType = CLLITypeNonBuilding, valid = True\<rparr>"
    using len site by (simp add: classify_def Let_def base isDigitsOnly_def)
  show ?thesis
    unfolding ParseWithOptions_def opts_def [symmetric]
    using len by (simp add: Let_def pre nonblank chars pl rg ns cl)
qed

theorem eight_characters_NonBuilding_witness:
  "length ''LSANCA12'' = 8
   \<and> list_all upperRune (take 4 ''LSANCA12'')
   \<and> take 2 (drop 4 ''LSANCA12'') \<in> set validRegions
   \<and> list_all digitRune (drop 6 ''LSANCA12'')
   \<and> Parse identityTables ''LSANCA12'' =
       Inr \<lparr>Original = ''LSANCA12'', Place = ''LSAN'', Region = ''CA'',
            NetworkSite = ''12'', EntityCode = [], LocationCode = [], LocationID = [],
            CustomerCode = [], CustomerID = [], cliType = CLLITypeNonBuilding,
            valid = True\<rparr>"
proof -
  have h1: "length ''LSANCA12'' = 8" by simp
  have h2: "list_all upperRune (take 4 ''LSANCA12'')" by code_simp
  have h3: "take 2 (drop 4 ''LSANCA12'') \<in> set validRegions" by code_simp
  have h4: "list_all digitRune (drop 6 ''LSANCA12'')" by code_simp
  show ?thesis
    using h1 h2 h3 h4
      eight_characters_NonBuilding [OF h1 h2 h3 h4, of identityTables "Some defaultOptions"]
    by (simp add: Parse_def)
qed

section \<open>The shape probes\<close>

declare entitySplit.simps [simp del]

lemma entitySplit_digits:
  "entitySplit remaining i \<Longrightarrow> 2 \<le> i \<Longrightarrow>
     digitRune (remaining ! 0) \<and> digitRune (remaining ! 1)"
proof (induction remaining i rule: entitySplit.induct)
  case (1 remaining i)
  from "1.prems"(1) have guard: "i \<le> length remaining" "i \<le> 5"
    by (subst (asm) entitySplit.simps, simp split: if_splits)+
  show ?case
  proof (cases "isDigitsOnly (take i remaining) \<and> length (drop i remaining) = 3
                \<and> isValidEntityCode (drop i remaining)")
    case True
    then have d: "isDigitsOnly (take i remaining)" by simp
    from isDigitsOnly_nth [OF d, of 0] isDigitsOnly_nth [OF d, of 1] guard "1.prems"(2)
    show ?thesis by simp
  next
    case False
    with "1.prems"(1) guard have "entitySplit remaining (Suc i)"
      by (subst (asm) entitySplit.simps) (simp add: Let_def)
    with "1.IH" [OF _ refl refl False] guard "1.prems"(2) show ?thesis by simp
  qed
qed

lemma IsEntityCLLI_digits:
  assumes "IsEntityCLLI U x"
  shows "digitRune (x ! 6) \<and> digitRune (x ! 7)"
proof -
  from assms have len: "8 \<le> length x" and sp: "entitySplit (drop 6 x) 2"
    by (auto simp add: IsEntityCLLI_def Let_def split: if_splits)
  from entitySplit_digits [OF sp] len show ?thesis by simp
qed

lemma IsNonBuildingCLLI_letter:
  assumes "IsNonBuildingCLLI U x"
  shows "upperRune (x ! 6)"
proof -
  from assms have len: "length x = 11" and a: "isAlpha (take 1 (drop 6 x))"
    by (auto simp add: IsNonBuildingCLLI_def Let_def split: if_splits)
  from isAlpha_nth [OF a, of 0] len show ?thesis by simp
qed

lemma IsCustomerCLLI_letter:
  assumes "IsCustomerCLLI U x"
  shows "digitRune (x ! 6) \<and> upperRune (x ! 7)"
proof -
  from assms have len: "length x = 11" and d: "isDigit (take 1 (drop 6 x))"
    and a: "isAlpha (take 1 (drop 7 x))"
    by (auto simp add: IsCustomerCLLI_def Let_def split: if_splits)
  from isAlpha_nth [OF a, of 0] d len show ?thesis
    by (simp add: isDigit_def digitRune_def)
qed

text \<open>
  Claim C8. On any input string at most one of \<open>IsEntityCLLI\<close>, \<open>IsNonBuildingCLLI\<close> and
  \<open>IsCustomerCLLI\<close> returns true: an entity has digits at offsets 6 and 7, a non-building
  identifier a letter at offset 6, a customer identifier a digit at offset 6 and a letter at
  offset 7.
\<close>

theorem probes_mutually_exclusive:
  "\<not> (IsEntityCLLI U x \<and> IsNonBuildingCLLI U x)
   \<and> \<not> (IsEntityCLLI U x \<and> IsCustomerCLLI U x)
   \<and> \<not> (IsNonBuildingCLLI U x \<and> IsCustomerCLLI U x)"
  using IsEntityCLLI_digits [of U x] IsNonBuildingCLLI_letter [of U x]
    IsCustomerCLLI_letter [of U x] digit_not_upper [of "x ! 6"] digit_not_upper [of "x ! 7"]
  by blast

theorem probes_mutually_exclusive_witness:
  "IsNonBuildingCLLI identityTables ''MPLSMNB1234''
   \<and> \<not> IsEntityCLLI identityTables ''MPLSMNB1234''
   \<and> \<not> IsCustomerCLLI identityTables ''MPLSMNB1234''"
proof -
  have h: "IsNonBuildingCLLI identityTables ''MPLSMNB1234''"
    by code_simp
  show ?thesis
    using h probes_mutually_exclusive [of identityTables "''MPLSMNB1234''"] by simp
qed

section \<open>The entity-code grammar\<close>

lemma digit_not_prefix: "digitRune a \<Longrightarrow> [a, b] \<notin> set tbPrefixes"
  by (auto simp add: tbPrefixes_def digitRune_def)

lemma digit_not_tableE: "digitRune a \<Longrightarrow> [a, b, c] \<notin> set tableE"
  by (auto simp add: tableE_def digitRune_def)

lemma digit_letters:
  assumes "digitRune b"
  shows "\<not> ContainsRune ''CDBINQWMVROLPEUTZ'' b" "\<not> ContainsRune ''AXCTWDEINPQ'' b"
    "\<not> ContainsRune ''UM'' b" "b \<noteq> CHR ''G''" "b \<noteq> CHR ''S''" "b \<noteq> CHR ''T''"
    "b \<noteq> CHR ''C''" "b \<noteq> CHR ''B''" "b \<noteq> CHR ''Z''" "b \<noteq> CHR ''R''" "b \<noteq> CHR ''X''"
    "b \<noteq> CHR ''Q''"
  using assms by (auto simp add: ContainsRune_def digitRune_def)

lemma validateEntityCode_length: "validateEntityCode code = None \<Longrightarrow> length code = 3"
  by (simp add: validateEntityCode_def split: if_splits)

text \<open>
  Claim C5, as stated, fails: the numeric variant of Table B is \<^verbatim>\<open>[0-9]{2}[12AZ]\<close>, and
  the code \<open>003\<close>, two digits followed by an alphanumeric character, matches no table.
\<close>

theorem two_digits_then_3_rejected:
  "digitRune CHR ''0'' \<and> alnumRune CHR ''3''
   \<and> ValidateEntityCode identityTables ''003'' True = Some (Formatted InvalidPattern)"
  by code_simp

text \<open>
  Claim C5, amended. A 3-character code of two digits followed by an alphanumeric character
  \<open>c\<close> is valid under strict validation exactly when \<open>c\<close> is one of \<open>1\<close>, \<open>2\<close>, \<open>A\<close>, \<open>Z\<close>
  (the numeric variant of Table B), \<open>T\<close> (the T-suffix rule) or \<open>B\<close> (Table C).
\<close>

theorem two_digit_codes:
  assumes a: "digitRune a" and b: "digitRune b" and c: "alnumRune c"
  shows "ValidateEntityCode U [a, b, c] True = None \<longleftrightarrow> c \<in> set ''12AZTB''"
proof -
  have v: "isValidEntityCode [a, b, c]"
    using a b c by (simp add: isValidEntityCode_def alnumRune_def)
  have "validateEntityCode [a, b, c] = None \<longleftrightarrow>
          ContainsRune ''12AZ'' c \<or> c = CHR ''T'' \<or> c = CHR ''B''"
    using a b v
    by (simp add: validateEntityCode_def Let_def digit_not_prefix digit_not_tableE
        digit_letters [OF a] digit_letters [OF b])
  also have "\<dots> \<longleftrightarrow> c \<in> set ''12AZTB''"
    by (auto simp add: ContainsRune_def)
  finally have "validateEntityCode [a, b, c] = None \<longleftrightarrow> c \<in> set ''12AZTB''" .
  then show ?thesis
    by (simp add: ValidateEntityCode_def)
qed

theorem two_digit_codes_witness:
  "digitRune CHR ''0'' \<and> digitRune CHR ''1'' \<and> alnumRune CHR ''A''
   \<and> ValidateEntityCode identityTables ''01A'' True = None"
proof -
  have a: "digitRune CHR ''0''" by code_simp
  have b: "digitRune CHR ''1''" by code_simp
  have c: "alnumRune CHR ''A''" by code_simp
  show ?thesis
    using a b c two_digit_codes [OF a b c, of identityTables] by simp
qed

section \<open>Strict and relaxed mode\<close>

lemma preprocess_Strict: "preprocess U (opts\<lparr>Strict := b\<rparr>) clli = preprocess U opts clli"
  by (simp add: preprocess_def)

lemma strict_irrelevant:
  assumes "8 \<le> length (preprocess U opts clli)"
  shows "ParseWithOptions U clli (Some (opts\<lparr>Strict := False\<rparr>)) =
         ParseWithOptions U clli (Some (opts\<lparr>Strict := True\<rparr>))"
  unfolding ParseWithOptions_def option.case Let_def preprocess_Strict
  using assms by simp

text \<open>
  Claim C2, as stated, fails: \<open>ParseWithOptions\<close> calls \<open>validateEntityCode\<close> whatever
  \<open>Strict\<close> is. With \<open>Strict\<close> off, \<open>CHCGIL01XYZ\<close> is rejected in field \<open>entity_code\<close>,
  although \<open>XYZ\<close> is three alphanumeric characters.
\<close>

theorem relaxed_mode_rejects_XYZ:
  "isValidEntityCode ''XYZ''
   \<and> ParseWithOptions identityTables ''CHCGIL01XYZ''
        (Some \<lparr>Strict = False, StrictValidation = False, NormalizeCase = True,
               TrimWhitespace = True\<rparr>) =
       Inl \<lparr>Input = ''CHCGIL01XYZ'', Position = 8, Field = ''entity_code'',
            Err = ErrInvalidEntity\<rparr>"
  by code_simp

text \<open>
  Claim C2, amended. The entity code is checked against the table grammar in relaxed mode
  exactly as in strict mode. For an input whose preprocessed length is at least 8,
  \<open>ParseWithOptions\<close> returns the same result with \<open>Strict\<close> off as with \<open>Strict\<close> on; and
  whenever a parse, in either mode, succeeds as an entity with an entity code, the code has
  exactly 3 characters and passes \<open>validateEntityCode\<close>. Relaxed mode only lowers the
  minimum length from 8 to 4.
\<close>

theorem relaxed_mode_checks_entity_code:
  "(8 \<le> length (preprocess U opts clli) \<longrightarrow>
      ParseWithOptions U clli (Some (opts\<lparr>Strict := False\<rparr>)) =
      ParseWithOptions U clli (Some (opts\<lparr>Strict := True\<rparr>)))
   \<and> (ParseWithOptions U clli (Some opts) = Inr c \<and> cliType c = CLLITypeEntity
        \<and> EntityCode c \<noteq> [] \<longrightarrow>
      length (EntityCode c) = 3 \<and> validateEntityCode (EntityCode c) = None)"
  using strict_irrelevant [of U opts clli] ParseWithOptions_Inr(10) [of U clli opts c]
    validateEntityCode_length [of "EntityCode c"]
  by blast

theorem relaxed_mode_checks_entity_code_witness:
  "8 \<le> length (preprocess identityTables defaultOptions ''CHCGIL01DS0'')
   \<and> ParseWithOptions identityTables ''CHCGIL01DS0'' (Some (defaultOptions\<lparr>Strict := False\<rparr>)) =
       ParseWithOptions identityTables ''CHCGIL01DS0'' (Some (defaultOptions\<lparr>Strict := True\<rparr>))
   \<and> ParseWithOptions identityTables ''CHCGIL01DS0'' (Some defaultOptions) =
       Inr \<lparr>Original = ''CHCGIL01DS0'', Place = ''CHCG'', Region = ''IL'',
            NetworkSite = ''01'', EntityCode = ''DS0'', LocationCode = [], LocationID = [],
            CustomerCode = [], CustomerID = [], cliType = CLLITypeEntity, valid = True\<rparr>
   \<and> validateEntityCode ''DS0'' = None"
proof -
  have l: "8 \<le> length (preprocess identityTables defaultOptions ''CHCGIL01DS0'')"
    by code_simp
  have p: "ParseWithOptions identityTables ''CHCGIL01DS0'' (Some defaultOptions) =
       Inr \<lparr>Original = ''CHCGIL01DS0'', Place = ''CHCG'', Region = ''IL'',
            NetworkSite = ''01'', EntityCode = ''DS0'', LocationCode = [], LocationID = [],
            CustomerCode = [], CustomerID = [], cliType = CLLITypeEntity, valid = True\<rparr>"
    by code_simp
  show ?thesis
    using l p
      relaxed_mode_checks_entity_code [of identityTables defaultOptions "''CHCGIL01DS0''"
        "\<lparr>Original = ''CHCGIL01DS0'', Place = ''CHCG'', Region = ''IL'',
            NetworkSite = ''01'', EntityCode = ''DS0'', LocationCode = [], LocationID = [],
            CustomerCode = [], CustomerID = [], cliType = CLLITypeEntity, valid = True\<rparr>"]
    by simp
qed

section \<open>Trailing fields by shape\<close>

lemma classify_known: "cliType (classify input (baseFields input)) \<noteq> CLLITypeUnknown"
  by (simp add: classify_def baseFields_def Let_def) arith

lemma classify_Entity:
  "cliType (classify input (baseFields input)) = CLLITypeEntity \<longrightarrow>
     8 \<le> length input
     \<and> NetworkSite (classify input (baseFields input)) = take 2 (drop 6 input)
     \<and> EntityCode (classify input (baseFields input)) = drop 8 input
     \<and> LocationCode (classify input (baseFields input)) = []
     \<and> LocationID (classify input (baseFields input)) = []
     \<and> CustomerCode (classify input (baseFields input)) = []
     \<and> CustomerID (classify input (baseFields input)) = []"
  by (simp add: classify_def baseFields_def Let_def)

lemma classify_NonBuilding:
  "cliType (classify input (baseFields input)) = CLLITypeNonBuilding \<longrightarrow>
     EntityCode (classify input (baseFields input)) = []
     \<and> CustomerCode (classify input (baseFields input)) = []
     \<and> CustomerID (classify input (baseFields input)) = []
     \<and> (if length input < 8 then
           NetworkSite (classify input (baseFields input)) = []
           \<and> LocationCode (classify input (baseFields input)) = []
           \<and> LocationID (classify input (baseFields input)) = []
         else if length input = 8 then
           NetworkSite (classify input (baseFields input)) = drop 6 input
           \<and> isDigitsOnly (drop 6 input)
           \<and> LocationCode (classify input (baseFields input)) = []
           \<and> LocationID (classify input (baseFields input)) = []
         else
           11 \<le> length input
           \<and> isAlpha (take 1 (drop 6 input)) \<and> isDigits (drop 7 input)
           \<and> NetworkSite (classify input (baseFields input)) = []
           \<and> LocationCode (classify input (baseFields input)) = take 1 (drop 6 input)
           \<and> LocationID (classify input (baseFields input)) = drop 7 input)"
  apply (simp add: classify_def baseFields_def Let_def)
  apply (intro conjI impI; (elim conjE)?; linarith?)
  done

lemma classify_Customer:
  "cliType (classify input (baseFields input)) = CLLITypeCustomer \<longrightarrow>
     LocationCode (classify input (baseFields input)) = []
     \<and> LocationID (classify input (baseFields input)) = []
     \<and> (if length input = 15 \<and> isDigits (take 2 (drop 6 input)) then
           NetworkSite (classify input (baseFields input)) = take 2 (drop 6 input)
           \<and> EntityCode (classify input (baseFields input)) = drop 8 input
           \<and> CustomerCode (classify input (baseFields input)) = []
           \<and> CustomerID (classify input (baseFields input)) = []
         else
           11 \<le> length input
           \<and> isDigit (take 1 (drop 6 input)) \<and> isAlpha (take 1 (drop 7 input))
           \<and> isDigits (drop 8 input)
           \<and> NetworkSite (classify input (baseFields input)) = []
           \<and> EntityCode (classify input (baseFields input)) = []
           \<and> CustomerCode (classify input (baseFields input)) = take 1 (drop 6 input)
           \<and> CustomerID (classify input (baseFields input)) = drop 7 input)"
  apply (simp add: classify_def baseFields_def Let_def)
  apply (intro conjI impI; (elim conjE)?; linarith?)
  done

lemma Entity_length:
  assumes "ParseWithOptions U clli (Some opts) = Inr c" and "cliType c = CLLITypeEntity"
  shows "length (Original c) = 8 \<or> length (Original c) = 11"
proof -
  define input where "input = preprocess U opts clli"
  have c: "c = classify input (baseFields input)"
    using ParseWithOptions_Inr(9) [OF assms(1)] by (simp add: input_def)
  have o: "Original c = input"
    by (simp add: c classify_Original baseFields_Original)
  from classify_Entity [of input] assms(2) c
  have l: "8 \<le> length input" and e: "EntityCode c = drop 8 input" by simp_all
  show ?thesis
  proof (cases "EntityCode c = []")
    case True
    with e l show ?thesis by (simp add: o)
  next
    case False
    from validateEntityCode_length [OF ParseWithOptions_Inr(10) [OF assms False]] e
    have "length input - 8 = 3" by simp
    then show ?thesis by (simp add: o) arith
  qed
qed

text \<open>
  Claim C4, as stated, fails: the 15-character customer form stores its trailing segment in
  \<open>NetworkSite\<close> and \<open>EntityCode\<close> and leaves \<open>CustomerCode\<close> and \<open>CustomerID\<close> empty.
\<close>

theorem customer_15_uses_entity_fields:
  "Parse identityTables ''DLLSTX011234567'' =
     Inr \<lparr>Original = ''DLLSTX011234567'', Place = ''DLLS'', Region = ''TX'',
          NetworkSite = ''01'', EntityCode = ''1234567'', LocationCode = [], LocationID = [],
          CustomerCode = [], CustomerID = [], cliType = CLLITypeCustomer, valid = True\<rparr>"
  by code_simp

text \<open>
  Claim C4, amended. For every successfully parsed identifier the shape is never
  \<open>Unknown\<close> and the trailing fields are these, all others being empty. Entity: the input
  has 8 or 11 characters, \<open>NetworkSite\<close> is characters 7 to 8 and \<open>EntityCode\<close> is what
  follows (nothing for 8 characters). NonBuilding: nothing for an input shorter than 8
  (relaxed mode); \<open>NetworkSite\<close>, two digits, for an input of 8; \<open>LocationCode\<close> (one
  letter) and \<open>LocationID\<close> (digits) for a longer one. Customer: \<open>NetworkSite\<close> (two digits)
  and \<open>EntityCode\<close> for the 15-character form that starts with two digits; \<open>CustomerCode\<close>
  (one digit) and \<open>CustomerID\<close> (a letter, then digits) otherwise.
\<close>

theorem trailing_fields_by_shape:
  assumes "ParseWithOptions U clli (Some opts) = Inr c"
  shows "cliType c \<noteq> CLLITypeUnknown
   \<and> (cliType c = CLLITypeEntity \<longrightarrow>
        (length (Original c) = 8 \<or> length (Original c) = 11)
        \<and> NetworkSite c = take 2 (drop 6 (Original c))
        \<and> EntityCode c = drop 8 (Original c)
        \<and> LocationCode c = [] \<and> LocationID c = []
        \<and> CustomerCode c = [] \<and> CustomerID c = [])
   \<and> (cliType c = CLLITypeNonBuilding \<longrightarrow>
        EntityCode c = [] \<and> CustomerCode c = [] \<and> CustomerID c = []
        \<and> (if length (Original c) < 8 then
              NetworkSite c = [] \<and> LocationCode c = [] \<and> LocationID c = []
            else if length (Original c) = 8 then
              NetworkSite c = drop 6 (Original c) \<and> isDigitsOnly (drop 6 (Original c))
              \<and> LocationCode c = [] \<and> LocationID c = []
            else
              11 \<le> length (Original c)
              \<and> isAlpha (take 1 (drop 6 (Original c))) \<and> isDigits (drop 7 (Original c))
              \<and> NetworkSite c = []
              \<and> LocationCode c = take 1 (drop 6 (Original c))
              \<and> LocationID c = drop 7 (Original c)))
   \<and> (cliType c = CLLITypeCustomer \<longrightarrow>
        LocationCode c = [] \<and> LocationID c = []
        \<and> (if length (Original c) = 15 \<and> isDigits (take 2 (drop 6 (Original c))) then
              NetworkSite c = take 2 (drop 6 (Original c))
              \<and> EntityCode c = drop 8 (Original c)
              \<and> CustomerCode c = [] \<and> CustomerID c = []
            else
              11 \<le> length (Original c)
              \<and> isDigit (take 1 (drop 6 (Original c)))
              \<and> isAlpha (take 1 (drop 7 (Original c)))
              \<and> isDigits (drop 8 (Original c))
              \<and> NetworkSite c = [] \<and> EntityCode c = []
              \<and> CustomerCode c = take 1 (drop 6 (Original c))
              \<and> CustomerID c = drop 7 (Original c)))"
proof -
  define input where "input = preprocess U opts clli"
  have c: "c = classify input (baseFields input)"
    using ParseWithOptions_Inr(9) [OF assms] by (simp add: input_def)
  have o: "Original (classify input (baseFields input)) = input"
    by (simp add: classify_Original baseFields_Original)
  have u: "cliType c \<noteq> CLLITypeUnknown"
    using classify_known [of input] by (simp add: c)
  have l: "cliType c = CLLITypeEntity \<longrightarrow>
             length (Original c) = 8 \<or> length (Original c) = 11"
    using Entity_length [OF assms] by simp
  show ?thesis
    apply (intro conjI)
    subgoal using u .
    subgoal using l classify_Entity [of input] unfolding c o by blast
    subgoal using classify_NonBuilding [of input] unfolding c o .
    subgoal using classify_Customer [of input] unfolding c o .
    done
qed

theorem trailing_fields_by_shape_witness:
  "ParseWithOptions identityTables ''CHCGIL01DS0'' (Some defaultOptions) =
     Inr \<lparr>Original = ''CHCGIL01DS0'', Place = ''CHCG'', Region = ''IL'',
          NetworkSite = ''01'', EntityCode = ''DS0'', LocationCode = [], LocationID = [],
          CustomerCode = [], CustomerID = [], cliType = CLLITypeEntity, valid = True\<rparr>
   \<and> ParseWithOptions identityTables ''MPLSMNMS'' (Some defaultOptions) =
     Inr \<lparr>Original = ''MPLSMNMS'', Place = ''MPLS'', Region = ''MN'',
          NetworkSite = ''MS'', EntityCode = [], LocationCode = [], LocationID = [],
          CustomerCode = [], CustomerID = [], cliType = CLLITypeEntity, valid = True\<rparr>
   \<and> ParseWithOptions identityTables ''MPLS'' (Some \<lparr>Strict = False, StrictValidation = False, NormalizeCase = True,
          TrimWhitespace = True\<rparr>) =
     Inr \<lparr>Original = ''MPLS'', Place = ''MPLS'', Region = ''XX'',
          NetworkSite = [], EntityCode = [], LocationCode = [], LocationID = [],
          CustomerCode = [], CustomerID = [], cliType = CLLITypeNonBuilding, valid = True\<rparr>
   \<and> ParseWithOptions identityTables ''LSANCA12'' (Some defaultOptions) =
     Inr \<lparr>Original = ''LSANCA12'', Place = ''LSAN'', Region = ''CA'',
          NetworkSite = ''12'', EntityCode = [], LocationCode = [], LocationID = [],
          CustomerCode = [], CustomerID = [], cliType = CLLITypeNonBuilding, valid = True\<rparr>
   \<and> ParseWithOptions identityTables ''MPLSMNB1234'' (Some defaultOptions) =
     Inr \<lparr>Original = ''MPLSMNB1234'', Place = ''MPLS'', Region = ''MN'',
          NetworkSite = [], EntityCode = [], LocationCode = ''B'', LocationID = ''1234'',
          CustomerCode = [], CustomerID = [], cliType = CLLITypeNonBuilding, valid = True\<rparr>
   \<and> ParseWithOptions identityTables ''DLLSTX011234567'' (Some defaultOptions) =
     Inr \<lparr>Original = ''DLLSTX011234567'', Place = ''DLLS'', Region = ''TX'',
          NetworkSite = ''01'', EntityCode = ''1234567'', LocationCode = [], LocationID = [],
          CustomerCode = [], CustomerID = [], cliType = CLLITypeCustomer, valid = True\<rparr>
   \<and> ParseWithOptions identityTables ''MPLSMN1A234'' (Some defaultOptions) =
     Inr \<lparr>Original = ''MPLSMN1A234'', Place = ''MPLS'', Region = ''MN'',
          NetworkSite = [], EntityCode = [], LocationCode = [], LocationID = [],
          CustomerCode = ''1'', CustomerID = ''A234'', cliType = CLLITypeCustomer, valid = True\<rparr>
   \<and> isDigits (take 2 (drop 6 ''DLLSTX011234567''))
   \<and> \<not> isDigits (take 2 (drop 6 ''MPLSMN1A234''))"
proof -
  have a: "ParseWithOptions identityTables ''CHCGIL01DS0'' (Some defaultOptions) =
     Inr \<lparr>Original = ''CHCGIL01DS0'', Place = ''CHCG'', Region = ''IL'',
          NetworkSite = ''01'', EntityCode = ''DS0'', LocationCode = [], LocationID = [],
          CustomerCode = [], CustomerID = [], cliType = CLLITypeEntity, valid = True\<rparr>"
    by code_simp
  have b: "ParseWithOptions identityTables ''MPLSMNMS'' (Some defaultOptions) =
     Inr \<lparr>Original = ''MPLSMNMS'', Place = ''MPLS'', Region = ''MN'',
          NetworkSite = ''MS'', EntityCode = [], LocationCode = [], LocationID = [],
          CustomerCode = [], CustomerID = [], cliType = CLLITypeEntity, valid = True\<rparr>"
    by code_simp
  have c: "ParseWithOptions identityTables ''MPLS'' (Some \<lparr>Strict = False, StrictValidation = False, NormalizeCase = True,
          TrimWhitespace = True\<rparr>) =
     Inr \<lparr>Original = ''MPLS'', Place = ''MPLS'', Region = ''XX'',
          NetworkSite = [], EntityCode = [], LocationCode = [], LocationID = [],
          CustomerCode = [], CustomerID = [], cliType = CLLITypeNonBuilding, valid = True\<rparr>"
    by code_simp
  have d: "ParseWithOptions identityTables ''LSANCA12'' (Some defaultOptions) =
     Inr \<lparr>Original = ''LSANCA12'', Place = ''LSAN'', Region = ''CA'',
          NetworkSite = ''12'', EntityCode = [], LocationCode = [], LocationID = [],
          CustomerCode = [], CustomerID = [], cliType = CLLITypeNonBuilding, valid = True\<rparr>"
    by code_simp
  have e: "ParseWithOptions identityTables ''MPLSMNB1234'' (Some defaultOptions) =
     Inr \<lparr>Original = ''MPLSMNB1234'', Place = ''MPLS'', Region = ''MN'',
          NetworkSite = [], EntityCode = [], LocationCode = ''B'', LocationID = ''1234'',
          CustomerCode = [], CustomerID = [], cliType = CLLITypeNonBuilding, valid = True\<rparr>"
    by code_simp
  have f: "ParseWithOptions identityTables ''DLLSTX011234567'' (Some defaultOptions) =
     Inr \<lparr>Original = ''DLLSTX011234567'', Place = ''DLLS'', Region = ''TX'',
          NetworkSite = ''01'', EntityCode = ''1234567'', LocationCode = [], LocationID = [],
          CustomerCode = [], CustomerID = [], cliType = CLLITypeCustomer, valid = True\<rparr>"
    by code_simp
  have g: "ParseWithOptions identityTables ''MPLSMN1A234'' (Some defaultOptions) =
     Inr \<lparr>Original = ''MPLSMN1A234'', Place = ''MPLS'', Region = ''MN'',
          NetworkSite = [], EntityCode = [], LocationCode = [], LocationID = [],
          CustomerCode = ''1'', CustomerID = ''A234'', cliType = CLLITypeCustomer, valid = True\<rparr>"
    by code_simp
  have dg: "isDigits (take 2 (drop 6 ''DLLSTX011234567''))"
    by code_simp
  have n: "\<not> isDigits (take 2 (drop 6 ''MPLSMN1A234''))"
    by code_simp
  show ?thesis
    using a b c d e f g dg n
      trailing_fields_by_shape [OF a] trailing_fields_by_shape [OF b]
      trailing_fields_by_shape [OF c] trailing_fields_by_shape [OF d]
      trailing_fields_by_shape [OF e] trailing_fields_by_shape [OF f]
      trailing_fields_by_shape [OF g]
    by simp
qed

section \<open>Probes and parsing\<close>

lemma validateEntityCode_valid: "validateEntityCode code = None \<Longrightarrow> isValidEntityCode code"
  by (simp add: validateEntityCode_def Let_def split: if_splits)

text \<open>
  Claim C1, as stated, fails. \<open>IsNonBuildingCLLI\<close> accepts 11 characters only and no
  lower-case input, while \<open>Parse\<close> classifies the 12-character \<open>MPLSMNB12345\<close> and, after
  uppercasing it, \<open>mplsmnb1234\<close> as non-building identifiers.
\<close>

theorem probe_disagrees_with_Parse:
  "Parse identityTables ''MPLSMNB12345'' =
     Inr \<lparr>Original = ''MPLSMNB12345'', Place = ''MPLS'', Region = ''MN'',
          NetworkSite = [], EntityCode = [], LocationCode = ''B'', LocationID = ''12345'',
          CustomerCode = [], CustomerID = [], cliType = CLLITypeNonBuilding, valid = True\<rparr>
   \<and> \<not> IsNonBuildingCLLI identityTables ''MPLSMNB12345''
   \<and> Parse identityTables ''mplsmnb1234'' =
     Inr \<lparr>Original = ''MPLSMNB1234'', Place = ''MPLS'', Region = ''MN'',
          NetworkSite = [], EntityCode = [], LocationCode = ''B'', LocationID = ''1234'',
          CustomerCode = [], CustomerID = [], cliType = CLLITypeNonBuilding, valid = True\<rparr>
   \<and> \<not> IsNonBuildingCLLI identityTables ''mplsmnb1234''"
  by code_simp

text \<open>
  Claim C1, amended. Take an input of exactly 11 characters that \<open>ParseWithOptions\<close> accepts
  without changing it (\<open>Original\<close> is the input itself, so it needed no trimming or
  uppercasing). If the shape is NonBuilding, \<open>IsNonBuildingCLLI\<close> returns true on it; if the
  shape is Customer, \<open>IsCustomerCLLI\<close> returns true; if the shape is Entity and the network
  site is two digits, \<open>IsEntityCLLI\<close> returns true. Nothing is said about an entity whose
  network site is not two digits.
\<close>

theorem probes_agree_on_11_characters:
  assumes p: "ParseWithOptions U x (Some opts) = Inr c"
    and orig: "Original c = x"
    and len: "length x = 11"
  shows "(cliType c = CLLITypeNonBuilding \<longrightarrow> IsNonBuildingCLLI U x)
   \<and> (cliType c = CLLITypeCustomer \<longrightarrow> IsCustomerCLLI U x)
   \<and> (cliType c = CLLITypeEntity \<and> isDigitsOnly (NetworkSite c) \<longrightarrow> IsEntityCLLI U x)"
proof -
  have c: "c = classify (preprocess U opts x) (baseFields (preprocess U opts x))"
    using ParseWithOptions_Inr(9) [OF p] .
  have pre: "preprocess U opts x = x"
    using orig by (simp add: c classify_Original baseFields_Original)
  have cx: "c = classify x (baseFields x)"
    using c by (simp only: pre)
  have alnum: "list_all alnumRune x"
    using ParseWithOptions_Inr(5) [OF p] by (simp add: pre)
  have ne: "x \<noteq> []" using len by auto
  have up: "ToUpper U x = x" using alnum by (rule ToUpper_alnum)
  have "list_all alnumRune (take 4 x)"
    using alnum by (auto simp add: list_all_iff dest: in_set_takeD)
  then have "TrimRightSpaces (take 4 x) = take 4 x" by (rule TrimRightSpaces_alnum)
  with ParseWithOptions_Inr(6) [OF p] len have place: "isAlpha (take 4 x)"
    by (simp add: pre validatePlace_None isAlpha_def)
  from ParseWithOptions_Inr(7) [OF p] len have region: "isAlpha (take 2 (drop 4 x))"
    by (simp add: pre validateRegion_None isAlpha_def)
  have nb: "IsNonBuildingCLLI U x" if "cliType c = CLLITypeNonBuilding"
  proof -
    from classify_NonBuilding [of x] that len
    have "isAlpha (take 1 (drop 6 x))" and "isDigits (drop 7 x)"
      by (simp_all add: cx)
    then show ?thesis
      using ne up len place region
      by (simp add: IsNonBuildingCLLI_def Let_def isDigits_def isDigitsOnly_def)
  qed
  have cu: "IsCustomerCLLI U x" if "cliType c = CLLITypeCustomer"
  proof -
    from classify_Customer [of x] that len
    have "isDigit (take 1 (drop 6 x))" and "isAlpha (take 1 (drop 7 x))"
      and "isDigits (drop 8 x)"
      by (simp_all add: cx)
    then show ?thesis
      using ne up len place region
      by (simp add: IsCustomerCLLI_def Let_def isDigits_def isDigitsOnly_def)
  qed
  have en: "IsEntityCLLI U x"
    if t: "cliType c = CLLITypeEntity" and d: "isDigitsOnly (NetworkSite c)"
  proof -
    from classify_Entity [of x] t
    have ns: "NetworkSite c = take 2 (drop 6 x)" and ec: "EntityCode c = drop 8 x"
      by (simp_all add: cx)
    have "EntityCode c \<noteq> []" using ec len by auto
    from validateEntityCode_valid [OF ParseWithOptions_Inr(10) [OF p t this]]
    have v: "isValidEntityCode (drop 8 x)" by (simp add: ec)
    have "entitySplit (drop 6 x) 2"
      using d v len by (subst entitySplit.simps) (simp add: ns Let_def)
    then show ?thesis
      using ne up len place region by (simp add: IsEntityCLLI_def Let_def)
  qed
  show ?thesis using nb cu en by blast
qed

theorem probes_agree_on_11_characters_witness:
  "ParseWithOptions identityTables ''CHCGIL01DS0'' (Some defaultOptions) =
     Inr \<lparr>Original = ''CHCGIL01DS0'', Place = ''CHCG'', Region = ''IL'',
          NetworkSite = ''01'', EntityCode = ''DS0'', LocationCode = [], LocationID = [],
          CustomerCode = [], CustomerID = [], cliType = CLLITypeEntity, valid = True\<rparr>
   \<and> ParseWithOptions identityTables ''MPLSMNB1234'' (Some defaultOptions) =
     Inr \<lparr>Original = ''MPLSMNB1234'', Place = ''MPLS'', Region = ''MN'',
          NetworkSite = [], EntityCode = [], LocationCode = ''B'', LocationID = ''1234'',
          CustomerCode = [], CustomerID = [], cliType = CLLITypeNonBuilding, valid = True\<rparr>
   \<and> ParseWithOptions identityTables ''MPLSMN1A234'' (Some defaultOptions) =
     Inr \<lparr>Original = ''MPLSMN1A234'', Place = ''MPLS'', Region = ''MN'',
          NetworkSite = [], EntityCode = [], LocationCode = [], LocationID = [],
          CustomerCode = ''1'', CustomerID = ''A234'', cliType = CLLITypeCustomer, valid = True\<rparr>
   \<and> length ''CHCGIL01DS0'' = 11 \<and> isDigitsOnly ''01''
   \<and> IsEntityCLLI identityTables ''CHCGIL01DS0''
   \<and> IsNonBuildingCLLI identityTables ''MPLSMNB1234''
   \<and> IsCustomerCLLI identityTables ''MPLSMN1A234''"
proof -
  have a: "ParseWithOptions identityTables ''CHCGIL01DS0'' (Some defaultOptions) =
     Inr \<lparr>Original = ''CHCGIL01DS0'', Place = ''CHCG'', Region = ''IL'',
          NetworkSite = ''01'', EntityCode = ''DS0'', LocationCode = [], LocationID = [],
          CustomerCode = [], CustomerID = [], cliType = CLLITypeEntity, valid = True\<rparr>"
    by code_simp
  have b: "ParseWithOptions identityTables ''MPLSMNB1234'' (Some defaultOptions) =
     Inr \<lparr>Original = ''MPLSMNB1234'', Place = ''MPLS'', Region = ''MN'',
          NetworkSite = [], EntityCode = [], LocationCode = ''B'', LocationID = ''1234'',
          CustomerCode = [], CustomerID = [], cliType = CLLITypeNonBuilding, valid = True\<rparr>"
    by code_simp
  have c: "ParseWithOptions identityTables ''MPLSMN1A234'' (Some defaultOptions) =
     Inr \<lparr>Original = ''MPLSMN1A234'', Place = ''MPLS'', Region = ''MN'',
          NetworkSite = [], EntityCode = [], LocationCode = [], LocationID = [],
          CustomerCode = ''1'', CustomerID = ''A234'', cliType = CLLITypeCustomer, valid = True\<rparr>"
    by code_simp
  have d: "isDigitsOnly ''01''"
    by code_simp
  show ?thesis
    using a b c d probes_agree_on_11_characters [OF a]
      probes_agree_on_11_characters [OF b] probes_agree_on_11_characters [OF c]
    by simp
qed

end
